theory Spec2Isabelle
  imports Main "HOL-Library.AList"
begin

section \<open>Values, exceptions and the Python builtins used by the connector\<close>

text \<open>
  The connector (\<^verbatim>\<open>rasa/core/channels/botframework.py\<close>) handles decoded JSON: the
  webhook body, the token endpoint's answer, the credentials and the payload fragments
  the pipeline passes in. A Python \<^verbatim>\<open>dict\<close> is an association list in insertion order;
  \<^verbatim>\<open>None\<close> is \<open>JNull\<close>. JSON numbers with a fraction are outside the model.
\<close>

datatype json =
    JNull
  | JBool bool
  | JInt int
  | JStr string
  | JList "json list"
  | JObj "(string \<times> json) list"

type_synonym dict = "(string \<times> json) list"

text \<open>
  Instances of Python's \<^verbatim>\<open>Exception\<close>. \<open>LibError\<close> stands for an exception raised by a
  collaborator: \<^verbatim>\<open>requests\<close> (connection error, timeout), Sanic's JSON decoding, the
  pipeline callback.
\<close>

datatype exn =
    KeyError string
  | TypeError
  | ValueError
  | IndexError
  | AttributeError
  | OverflowError
  | MissingCredentials
  | LibError string

text \<open>
  Two builtins are parameters of the model: \<^verbatim>\<open>str()\<close> on a value that is not a string
  and \<^verbatim>\<open>int()\<close> on a string. What Python fixes for the other arguments is written out
  in \<open>format_value\<close> and \<open>py_int\<close>.
\<close>

record pylib =
  str_of :: "json \<Rightarrow> string"
  int_of_str :: "string \<Rightarrow> exn + int"

text \<open>\<^verbatim>\<open>"{}".format(v)\<close> and \<^verbatim>\<open>"%s" % v\<close>: a string is inserted as it is.\<close>

definition format_value :: "pylib \<Rightarrow> json \<Rightarrow> string" where
  "format_value L v = (case v of JStr s \<Rightarrow> s | _ \<Rightarrow> str_of L v)"

text \<open>\<^verbatim>\<open>int(v)\<close> on a decoded JSON value.\<close>

definition py_int :: "pylib \<Rightarrow> json \<Rightarrow> exn + int" where
  "py_int L v =
     (case v of
        JInt n \<Rightarrow> Inr n
      | JBool b \<Rightarrow> Inr (if b then 1 else 0)
      | JStr s \<Rightarrow> int_of_str L s
      | _ \<Rightarrow> Inl TypeError)"

text \<open>\<^verbatim>\<open>v[k]\<close> with a string key: only a dict can be subscripted that way.\<close>

definition getitem :: "json \<Rightarrow> string \<Rightarrow> exn + json" where
  "getitem v k =
     (case v of
        JObj d \<Rightarrow> (case map_of d k of Some x \<Rightarrow> Inr x | None \<Rightarrow> Inl (KeyError k))
      | _ \<Rightarrow> Inl TypeError)"

text \<open>\<^verbatim>\<open>d.get(k)\<close>: \<^verbatim>\<open>None\<close> for a missing key.\<close>

definition dict_get :: "dict \<Rightarrow> string \<Rightarrow> json" where
  "dict_get d k = (case map_of d k of Some x \<Rightarrow> x | None \<Rightarrow> JNull)"

text \<open>
  \<^verbatim>\<open>d.update(m)\<close>: every item of \<open>m\<close>, in order, is stored in \<open>d\<close>; a key already in \<open>d\<close>
  keeps its position and takes the new value, a new key is appended.
\<close>

definition dict_update :: "dict \<Rightarrow> dict \<Rightarrow> dict" where
  "dict_update d m = fold (\<lambda>(k, v). AList.update k v) m d"

section \<open>The input channel: credentials\<close>

record botframework_input =
  input_app_id :: json
  input_app_password :: json

text \<open>
  Modelled from the spec: \<^verbatim>\<open>InputChannel.raise_missing_credentials_exception\<close> is
  declared in \<^verbatim>\<open>rasa.core.channels.channel\<close>, which is not among the sources, and the spec
  leaves the loading of credentials to the caller. By its name and by the docstring of
  \<^verbatim>\<open>from_credentials\<close> (``If no credentials are provided, an exception is raised'') it
  always raises.
\<close>

definition raise_missing_credentials_exception :: "exn + unit" where
  "raise_missing_credentials_exception = Inl MissingCredentials"

text \<open>\<^verbatim>\<open>not credentials\<close>: the argument is \<^verbatim>\<open>None\<close> or the empty dict.\<close>

definition falsy :: "dict option \<Rightarrow> bool" where
  "falsy credentials = (case credentials of None \<Rightarrow> True | Some d \<Rightarrow> d = [])"

definition BotFrameworkInput :: "json \<Rightarrow> json \<Rightarrow> botframework_input" where
  "BotFrameworkInput app_id app_password =
     \<lparr>input_app_id = app_id, input_app_password = app_password\<rparr>"

definition from_credentials :: "dict option \<Rightarrow> exn + botframework_input" where
  "from_credentials credentials =
     (case (if falsy credentials then raise_missing_credentials_exception else Inr ()) of
        Inl e \<Rightarrow> Inl e
      | Inr _ \<Rightarrow>
          (case credentials of
             None \<Rightarrow> Inl AttributeError
           | Some d \<Rightarrow>
               Inr (BotFrameworkInput (dict_get d ''app_id'') (dict_get d ''app_password''))))"

section \<open>Clock, network and the class-level token cache\<close>

text \<open>
  A \<^verbatim>\<open>datetime\<close> is a count of microseconds since 0001-01-01T00:00:00; the last
  representable instant is 9999-12-31T23:59:59.999999 (day 3652059). A \<^verbatim>\<open>timedelta\<close> is a
  count of microseconds whose whole days stay within 999999999 in magnitude. Both
  constructors raise \<^verbatim>\<open>OverflowError\<close> outside their range.
\<close>

type_synonym datetime = int

definition datetime_end :: int where
  "datetime_end = 3652059 * 86400 * 1000000"

definition timedelta_seconds :: "int \<Rightarrow> exn + int" where
  "timedelta_seconds n =
     (if - 999999999 \<le> n div 86400 \<and> n div 86400 \<le> 999999999
      then Inr (n * 1000000) else Inl OverflowError)"

definition datetime_add :: "datetime \<Rightarrow> int \<Rightarrow> exn + datetime" where
  "datetime_add t d =
     (if 0 \<le> t + d \<and> t + d < datetime_end then Inr (t + d) else Inl OverflowError)"

text \<open>
  What \<^verbatim>\<open>requests.post(uri, headers=..., data=..., timeout=...)\<close> is given: \<^verbatim>\<open>data\<close> is
  either a dict (sent form-encoded) or the string \<^verbatim>\<open>json.dumps(data)\<close>, kept here as the
  value that was serialised.
\<close>

datatype payload = Form dict | Json_dumps json

record request =
  uri :: string
  req_headers :: "(string \<times> string) list option"
  req_data :: payload
  timeout :: nat

text \<open>
  What the connector reads of a \<^verbatim>\<open>requests.Response\<close>: \<^verbatim>\<open>.ok\<close> (false for an error
  status, 400 and above), \<^verbatim>\<open>.json()\<close>, which raises on a body that is not JSON, and
  \<^verbatim>\<open>.text\<close>.
\<close>

record http_response =
  ok :: bool
  resp_json :: "exn + json"
  resp_text :: string

text \<open>
  The environment: the reading of the wall clock at the \<open>n\<close>-th call of
  \<^verbatim>\<open>datetime.datetime.now()\<close>, the outcome of a POST given the requests issued before it
  (a response, or an exception raised by \<^verbatim>\<open>requests\<close>), and the two builtins.
\<close>

record env =
  clock :: "nat \<Rightarrow> datetime"
  http :: "request list \<Rightarrow> request \<Rightarrow> exn + http_response"
  lib :: pylib

datatype log_entry =
    Log_error string
  | Log_info string
  | Log_error_exn exn
  | Log_debug_exn exn

text \<open>
  The state a call can change: the two class attributes of \<^verbatim>\<open>BotFramework\<close>
  (\<^verbatim>\<open>token_expiration_date\<close>, \<^verbatim>\<open>headers\<close>), shared by every instance, the number of clock
  readings taken so far, the requests issued so far (oldest first), and the log.
  \<^verbatim>\<open>requests.post\<close> blocks and \<^verbatim>\<open>_get_headers\<close> awaits nothing, so the coroutines of the
  output channel never suspend: a call runs to its end on the state it started from.
\<close>

record state =
  token_expiration_date :: datetime
  headers :: "(string \<times> string) list option"
  ticks :: nat
  sent :: "request list"
  logged :: "log_entry list"

definition now :: "env \<Rightarrow> state \<Rightarrow> datetime \<times> state" where
  "now E s = (clock E (ticks s), s\<lparr>ticks := Suc (ticks s)\<rparr>)"

definition requests_post :: "env \<Rightarrow> request \<Rightarrow> state \<Rightarrow> (exn + http_response) \<times> state" where
  "requests_post E r s = (http E (sent s) r, s\<lparr>sent := sent s @ [r]\<rparr>)"

definition logger :: "log_entry \<Rightarrow> state \<Rightarrow> state" where
  "logger l s = s\<lparr>logged := logged s @ [l]\<rparr>"

section \<open>The output channel\<close>

definition MICROSOFT_OAUTH2_URL :: string where
  "MICROSOFT_OAUTH2_URL = ''https://login.microsoftonline.com''"

definition MICROSOFT_OAUTH2_PATH :: string where
  "MICROSOFT_OAUTH2_PATH = ''botframework.com/oauth2/v2.0/token''"

record botframework =
  app_id :: json
  app_password :: json
  conversation :: json
  global_uri :: string
  bot_id :: json

text \<open>\<^verbatim>\<open>BotFramework.__init__\<close>.\<close>

definition BotFramework :: "env \<Rightarrow> json \<Rightarrow> json \<Rightarrow> json \<Rightarrow> json \<Rightarrow> json \<Rightarrow> botframework" where
  "BotFramework E app_id' app_password' conversation' bot_id' service_url =
     \<lparr>app_id = app_id',
      app_password = app_password',
      conversation = conversation',
      global_uri = format_value (lib E) service_url @ ''v3/'',
      bot_id = bot_id'\<rparr>"

text \<open>
  \<^verbatim>\<open>BotFramework._get_headers\<close>. The result is \<open>Inr None\<close> where the Python function falls
  off its end after logging that the token could not be fetched.
\<close>

definition get_headers ::
  "env \<Rightarrow> botframework \<Rightarrow> state \<Rightarrow> (exn + (string \<times> string) list option) \<times> state" where
  "get_headers E self s0 =
     (let (t, s1) = now E s0 in
      if token_expiration_date s1 < t then
        (let uri' = MICROSOFT_OAUTH2_URL @ ''/'' @ MICROSOFT_OAUTH2_PATH;
             grant_type = ''client_credentials'';
             scope = ''https://api.botframework.com/.default'';
             payload = [(''client_id'', app_id self),
                        (''client_secret'', app_password self),
                        (''grant_type'', JStr grant_type),
                        (''scope'', JStr scope)];
             (r, s2) = requests_post E
                         \<lparr>uri = uri', req_headers = None, req_data = Form payload, timeout = 60\<rparr> s1
         in case r of
              Inl e \<Rightarrow> (Inl e, s2)
            | Inr token_response \<Rightarrow>
                if ok token_response then
                  (case resp_json token_response of
                     Inl e \<Rightarrow> (Inl e, s2)
                   | Inr token_data \<Rightarrow>
                  (case getitem token_data ''access_token'' of
                     Inl e \<Rightarrow> (Inl e, s2)
                   | Inr access_token \<Rightarrow>
                  (case getitem token_data ''expires_in'' of
                     Inl e \<Rightarrow> (Inl e, s2)
                   | Inr token_expiration \<Rightarrow>
                  (let (t', s3) = now E s2 in
                   case py_int (lib E) token_expiration of
                     Inl e \<Rightarrow> (Inl e, s3)
                   | Inr n \<Rightarrow>
                  (case timedelta_seconds n of
                     Inl e \<Rightarrow> (Inl e, s3)
                   | Inr d \<Rightarrow>
                  (case datetime_add t' d of
                     Inl e \<Rightarrow> (Inl e, s3)
                   | Inr expiration \<Rightarrow>
                  (let s4 = s3\<lparr>token_expiration_date := expiration\<rparr>;
                       s5 = s4\<lparr>headers :=
                                 Some [(''content-type'', ''application/json''),
                                       (''Authorization'',
                                        ''Bearer '' @ format_value (lib E) access_token)]\<rparr>
                   in (Inr (headers s5), s5))))))))
                else (Inr None, logger (Log_error ''Could not get BotFramework token'') s2))
      else (Inr (headers s1), s1))"

text \<open>
  \<^verbatim>\<open>BotFramework.send\<close>. The recipient id is whatever the pipeline passes (the webhook
  hands it the decoded \<^verbatim>\<open>from.id\<close>); \<^verbatim>\<open>message_data\<close> is a dict, as annotated.
\<close>

definition send ::
  "env \<Rightarrow> botframework \<Rightarrow> json \<Rightarrow> dict \<Rightarrow> state \<Rightarrow> (exn + unit) \<times> state" where
  "send E self recipient_id message_data s0 =
     (case getitem (conversation self) ''id'' of
        Inl e \<Rightarrow> (Inl e, s0)
      | Inr conversation_id \<Rightarrow>
          (let post_message_uri =
                 global_uri self @ ''conversations/'' @
                 format_value (lib E) conversation_id @ ''/activities'';
               data = [(''type'', JStr ''message''),
                       (''recipient'', JObj [(''id'', recipient_id)]),
                       (''from'', bot_id self),
                       (''channelData'',
                        JObj [(''notification'', JObj [(''alert'', JStr ''true'')])]),
                       (''text'', JStr [])];
               data' = dict_update data message_data;
               (h, s1) = get_headers E self s0
           in case h of
                Inl e \<Rightarrow> (Inl e, s1)
              | Inr headers' \<Rightarrow>
                  (let (r, s2) = requests_post E
                                   \<lparr>uri = post_message_uri, req_headers = headers',
                                    req_data = Json_dumps (JObj data'), timeout = 60\<rparr> s1
                   in case r of
                        Inl e \<Rightarrow> (Inl e, s2)
                      | Inr send_response \<Rightarrow>
                          if \<not> ok send_response then
                            (Inr (),
                             logger (Log_error (''Error trying to send botframework messge. '' @
                                                ''Response: '' @ resp_text send_response)) s2)
                          else (Inr (), s2))))"

text \<open>
  \<^verbatim>\<open>message.split("\n\n")\<close>: the text is cut at each occurrence of two line feeds, found
  from the left; \<open>cur\<close> is the part of the current segment already read.
\<close>

fun split_paragraphs :: "string \<Rightarrow> string \<Rightarrow> string list" where
  "split_paragraphs cur [] = [cur]"
| "split_paragraphs cur [c] = [cur @ [c]]"
| "split_paragraphs cur (c # d # rest) =
     (if c = CHR 0x0A \<and> d = CHR 0x0A then cur # split_paragraphs [] rest
      else split_paragraphs (cur @ [c]) (d # rest))"

text \<open>
  \<^verbatim>\<open>BotFramework.send_text_message\<close>: the \<^verbatim>\<open>for\<close> loop over the parts; a \<^verbatim>\<open>send\<close> that
  raises ends the loop.
\<close>

fun send_parts ::
  "env \<Rightarrow> botframework \<Rightarrow> json \<Rightarrow> string list \<Rightarrow> state \<Rightarrow> (exn + unit) \<times> state" where
  "send_parts E self recipient_id [] s = (Inr (), s)"
| "send_parts E self recipient_id (message_part # parts) s =
     (let text_message = [(''text'', JStr message_part)] in
      case send E self recipient_id text_message s of
        (Inl e, s') \<Rightarrow> (Inl e, s')
      | (Inr _, s') \<Rightarrow> send_parts E self recipient_id parts s')"

definition send_text_message ::
  "env \<Rightarrow> botframework \<Rightarrow> json \<Rightarrow> string \<Rightarrow> state \<Rightarrow> (exn + unit) \<times> state" where
  "send_text_message E self recipient_id message s =
     send_parts E self recipient_id (split_paragraphs [] message) s"


section \<open>The input channel: the webhook route\<close>

text \<open>
  Modelled from the spec: \<^verbatim>\<open>UserMessage\<close> is declared in \<^verbatim>\<open>rasa.core.channels.channel\<close>,
  which is not among the sources. The spec's InternalMessage wraps the text, the sender
  id, the channel name and the reply channel.
\<close>

record user_message =
  message_text :: json
  output_channel :: botframework
  sender_id :: json
  input_channel :: string

definition UserMessage :: "json \<Rightarrow> botframework \<Rightarrow> json \<Rightarrow> string \<Rightarrow> user_message" where
  "UserMessage text' output_channel' sender_id' input_channel' =
     \<lparr>message_text = text', output_channel = output_channel', sender_id = sender_id',
      input_channel = input_channel'\<rparr>"

text \<open>
  What the route reads of Sanic's request: the property \<^verbatim>\<open>request.json\<close>, which gives the
  decoded body (\<^verbatim>\<open>None\<close> for an empty one) or raises when the body does not decode.
\<close>

record sanic_request =
  request_json :: "exn + json"

record http_reply =
  status :: nat
  body :: string

text \<open>\<^verbatim>\<open>response.text(body)\<close>: the status defaults to 200.\<close>

definition response_text :: "string \<Rightarrow> http_reply" where
  "response_text b = \<lparr>status = 200, body = b\<rparr>"

definition name :: string where
  "name = ''botframework''"

text \<open>The body of the \<^verbatim>\<open>try\<close> block of the route.\<close>

definition handle_postdata ::
  "env \<Rightarrow> botframework_input \<Rightarrow> (user_message \<Rightarrow> state \<Rightarrow> (exn + unit) \<times> state) \<Rightarrow>
   json \<Rightarrow> state \<Rightarrow> (exn + unit) \<times> state" where
  "handle_postdata E self on_new_message postdata s =
     (case getitem postdata ''type'' of
        Inl e \<Rightarrow> (Inl e, s)
      | Inr ty \<Rightarrow>
          if ty = JStr ''message'' then
            (case getitem postdata ''conversation'' of
               Inl e \<Rightarrow> (Inl e, s)
             | Inr conversation' \<Rightarrow>
            (case getitem postdata ''recipient'' of
               Inl e \<Rightarrow> (Inl e, s)
             | Inr recipient \<Rightarrow>
            (case getitem postdata ''serviceUrl'' of
               Inl e \<Rightarrow> (Inl e, s)
             | Inr service_url \<Rightarrow>
            (let out_channel = BotFramework E (input_app_id self) (input_app_password self)
                                 conversation' recipient service_url in
             case getitem postdata ''text'' of
               Inl e \<Rightarrow> (Inl e, s)
             | Inr text' \<Rightarrow>
            (case getitem postdata ''from'' of
               Inl e \<Rightarrow> (Inl e, s)
             | Inr from' \<Rightarrow>
            (case getitem from' ''id'' of
               Inl e \<Rightarrow> (Inl e, s)
             | Inr sender \<Rightarrow>
                 on_new_message (UserMessage text' out_channel sender name) s))))))
          else (Inr (), logger (Log_info ''Not received message type'') s))"

text \<open>
  The route \<^verbatim>\<open>POST /webhook\<close>. An \<open>Inl\<close> result is an exception that leaves the handler;
  \<^verbatim>\<open>request.json\<close> is read before the \<^verbatim>\<open>try\<close> block is entered.
\<close>

definition webhook ::
  "env \<Rightarrow> botframework_input \<Rightarrow> (user_message \<Rightarrow> state \<Rightarrow> (exn + unit) \<times> state) \<Rightarrow>
   sanic_request \<Rightarrow> state \<Rightarrow> (exn + http_reply) \<times> state" where
  "webhook E self on_new_message request s =
     (case request_json request of
        Inl e \<Rightarrow> (Inl e, s)
      | Inr postdata \<Rightarrow>
          (case handle_postdata E self on_new_message postdata s of
             (Inl e, s') \<Rightarrow>
               (Inr (response_text ''success''),
                logger (Log_debug_exn e) (logger (Log_error_exn e) s'))
           | (Inr _, s') \<Rightarrow> (Inr (response_text ''success''), s')))"

section \<open>Requests named for the statements\<close>

text \<open>The request \<^verbatim>\<open>_get_headers\<close> posts to the token endpoint (lines 94 to 102).\<close>

definition token_request :: "botframework \<Rightarrow> request" where
  "token_request self =
     \<lparr>uri = ''https://login.microsoftonline.com/botframework.com/oauth2/v2.0/token'',
      req_headers = None,
      req_data = Form [(''client_id'', app_id self),
                       (''client_secret'', app_password self),
                       (''grant_type'', JStr ''client_credentials''),
                       (''scope'', JStr ''https://api.botframework.com/.default'')],
      timeout = 60\<rparr>"

text \<open>The dict literal \<^verbatim>\<open>send\<close> starts from (lines 141 to 151).\<close>

definition base_envelope :: "botframework \<Rightarrow> json \<Rightarrow> dict" where
  "base_envelope self recipient_id =
     [(''type'', JStr ''message''),
      (''recipient'', JObj [(''id'', recipient_id)]),
      (''from'', bot_id self),
      (''channelData'', JObj [(''notification'', JObj [(''alert'', JStr ''true'')])]),
      (''text'', JStr [])]"

text \<open>
  The request \<^verbatim>\<open>send\<close> posts for a fragment, given the conversation id it read and the
  headers \<^verbatim>\<open>_get_headers\<close> returned (lines 139 to 157).
\<close>

definition activity_request ::
  "env \<Rightarrow> botframework \<Rightarrow> json \<Rightarrow> dict \<Rightarrow> json \<Rightarrow> (string \<times> string) list option \<Rightarrow> request" where
  "activity_request E self recipient_id message_data conversation_id h =
     \<lparr>uri = global_uri self @ ''conversations/'' @
            format_value (lib E) conversation_id @ ''/activities'',
      req_headers = h,
      req_data = Json_dumps (JObj (dict_update (base_envelope self recipient_id) message_data)),
      timeout = 60\<rparr>"

text \<open>The headers stored after a successful token fetch (lines 113 to 115).\<close>

definition bearer_headers :: "env \<Rightarrow> json \<Rightarrow> (string \<times> string) list" where
  "bearer_headers E access_token =
     [(''content-type'', ''application/json''),
      (''Authorization'', ''Bearer '' @ format_value (lib E) access_token)]"

text \<open>
  The paragraph separator, the inverse of splitting, and the test for a separator inside
  a segment: they state what \<open>split_paragraphs\<close> computes.
\<close>

definition separator :: string where
  "separator = [CHR 0x0A, CHR 0x0A]"

fun join_paragraphs :: "string list \<Rightarrow> string" where
  "join_paragraphs [] = []"
| "join_paragraphs [x] = x"
| "join_paragraphs (x # y # ys) = x @ separator @ join_paragraphs (y # ys)"

fun has_separator :: "string \<Rightarrow> bool" where
  "has_separator (c # d # rest) = ((c = CHR 0x0A \<and> d = CHR 0x0A) \<or> has_separator (d # rest))"
| "has_separator _ = False"

section \<open>Example environments\<close>

text \<open>
  The examples format strings and convert integers only, so the two builtin parameters
  are never consulted in them.
\<close>

definition example_lib :: pylib where
  "example_lib = \<lparr>str_of = (\<lambda>v. []), int_of_str = (\<lambda>s. Inl ValueError)\<rparr>"

definition token_reply :: http_response where
  "token_reply =
     \<lparr>ok = True,
      resp_json = Inr (JObj [(''token_type'', JStr ''Bearer''),
                             (''expires_in'', JInt 3600),
                             (''access_token'', JStr ''tok'')]),
      resp_text = []\<rparr>"

definition accepted :: http_response where
  "accepted = \<lparr>ok = True, resp_json = Inr (JObj [(''id'', JStr ''1'')]), resp_text = []\<rparr>"

definition unauthorized :: http_response where
  "unauthorized =
     \<lparr>ok = False,
      resp_json = Inr (JObj [(''error'', JStr ''invalid_client'')]),
      resp_text = ''Unauthorized''\<rparr>"

text \<open>The clock advances five seconds between two readings; readings are in microseconds.\<close>

definition example_clock :: "nat \<Rightarrow> datetime" where
  "example_clock n = 1000000 * (100 + 5 * int n)"

text \<open>A platform that grants tokens and accepts activities.\<close>

definition example_env :: env where
  "example_env =
     \<lparr>clock = example_clock,
      http = (\<lambda>hist r. case req_data r of Form _ \<Rightarrow> Inr token_reply
                                       | Json_dumps _ \<Rightarrow> Inr accepted),
      lib = example_lib\<rparr>"

text \<open>A platform that answers every request with status 401.\<close>

definition refusing_env :: env where
  "refusing_env =
     \<lparr>clock = example_clock, http = (\<lambda>hist r. Inr unauthorized), lib = example_lib\<rparr>"

definition example_channel :: botframework where
  "example_channel =
     BotFramework example_env (JStr ''app'') (JStr ''secret'')
       (JObj [(''id'', JStr ''c1'')]) (JObj [(''id'', JStr ''bot'')])
       (JStr ''https://webchat.botframework.com/'')"

text \<open>No token fetched yet: the expiration date is the time the class was created.\<close>

definition initial_state :: state where
  "initial_state =
     \<lparr>token_expiration_date = 0, headers = None, ticks = 0, sent = [], logged = []\<rparr>"

text \<open>A token that is valid for another hour.\<close>

definition cached_state :: state where
  "cached_state =
     \<lparr>token_expiration_date = 1000000 * 3700,
      headers = Some [(''content-type'', ''application/json''),
                      (''Authorization'', ''Bearer old'')],
      ticks = 0, sent = [], logged = []\<rparr>"

definition example_input :: botframework_input where
  "example_input = BotFrameworkInput (JStr ''app'') (JStr ''secret'')"

text \<open>A pipeline that answers every message with one line of text.\<close>

definition example_callback :: "user_message \<Rightarrow> state \<Rightarrow> (exn + unit) \<times> state" where
  "example_callback m s =
     send_text_message example_env (output_channel m) (sender_id m) ''hello'' s"

definition undecodable_request :: sanic_request where
  "undecodable_request = \<lparr>request_json = Inl (LibError ''InvalidUsage'')\<rparr>"

text \<open>
  The bodies of the activities among the requests issued, oldest first: \<^verbatim>\<open>send\<close> posts
  \<^verbatim>\<open>json.dumps(data)\<close>, \<^verbatim>\<open>_get_headers\<close> posts a form.
\<close>

definition posted_bodies :: "state \<Rightarrow> json list" where
  "posted_bodies s =
     concat (map (\<lambda>q. case req_data q of Json_dumps b \<Rightarrow> [b] | Form _ \<Rightarrow> []) (sent s))"

text \<open>The body \<^verbatim>\<open>send\<close> posts for a paragraph of text.\<close>

definition text_body :: "botframework \<Rightarrow> json \<Rightarrow> string \<Rightarrow> json" where
  "text_body self recipient_id part =
     JObj (dict_update (base_envelope self recipient_id) [(''text'', JStr part)])"

section \<open>The branches of fetching headers and of sending\<close>

lemma get_headers_cached:
  "\<not> token_expiration_date s < clock E (ticks s) \<Longrightarrow>
   get_headers E self s = (Inr (headers s), s\<lparr>ticks := Suc (ticks s)\<rparr>)"
  by (simp add: get_headers_def now_def)

lemma get_headers_refused:
  "token_expiration_date s < clock E (ticks s) \<Longrightarrow>
   http E (sent s) (token_request self) = Inr resp \<Longrightarrow> \<not> ok resp \<Longrightarrow>
   get_headers E self s =
     (Inr None, s\<lparr>ticks := Suc (ticks s), sent := sent s @ [token_request self],
                  logged := logged s @ [Log_error ''Could not get BotFramework token'']\<rparr>)"
  by (simp add: get_headers_def now_def requests_post_def logger_def token_request_def
      MICROSOFT_OAUTH2_URL_def MICROSOFT_OAUTH2_PATH_def)

lemma get_headers_raised:
  "token_expiration_date s < clock E (ticks s) \<Longrightarrow>
   http E (sent s) (token_request self) = Inl e \<Longrightarrow>
   get_headers E self s =
     (Inl e, s\<lparr>ticks := Suc (ticks s), sent := sent s @ [token_request self]\<rparr>)"
  by (simp add: get_headers_def now_def requests_post_def token_request_def
      MICROSOFT_OAUTH2_URL_def MICROSOFT_OAUTH2_PATH_def)

lemma get_headers_granted:
  assumes "token_expiration_date s < clock E (ticks s)"
    and "http E (sent s) (token_request self) = Inr resp"
    and "ok resp"
  shows "get_headers E self s =
      (case resp_json resp of
         Inl e \<Rightarrow> (Inl e, s\<lparr>ticks := Suc (ticks s), sent := sent s @ [token_request self]\<rparr>)
       | Inr token_data \<Rightarrow>
      (case getitem token_data ''access_token'' of
         Inl e \<Rightarrow> (Inl e, s\<lparr>ticks := Suc (ticks s), sent := sent s @ [token_request self]\<rparr>)
       | Inr access_token \<Rightarrow>
      (case getitem token_data ''expires_in'' of
         Inl e \<Rightarrow> (Inl e, s\<lparr>ticks := Suc (ticks s), sent := sent s @ [token_request self]\<rparr>)
       | Inr token_expiration \<Rightarrow>
      (case py_int (lib E) token_expiration of
         Inl e \<Rightarrow>
           (Inl e, s\<lparr>ticks := Suc (Suc (ticks s)), sent := sent s @ [token_request self]\<rparr>)
       | Inr n \<Rightarrow>
      (case timedelta_seconds n of
         Inl e \<Rightarrow>
           (Inl e, s\<lparr>ticks := Suc (Suc (ticks s)), sent := sent s @ [token_request self]\<rparr>)
       | Inr d \<Rightarrow>
      (case datetime_add (clock E (Suc (ticks s))) d of
         Inl e \<Rightarrow>
           (Inl e, s\<lparr>ticks := Suc (Suc (ticks s)), sent := sent s @ [token_request self]\<rparr>)
       | Inr x \<Rightarrow>
          (Inr (Some (bearer_headers E access_token)),
           s\<lparr>ticks := Suc (Suc (ticks s)), sent := sent s @ [token_request self],
             token_expiration_date := x,
             headers := Some (bearer_headers E access_token)\<rparr>)))))))"
  using assms
  by (simp add: get_headers_def now_def requests_post_def token_request_def
      MICROSOFT_OAUTH2_URL_def MICROSOFT_OAUTH2_PATH_def bearer_headers_def
      split: sum.splits)

lemma get_headers_one_post:
  assumes "token_expiration_date s < clock E (ticks s)"
  shows "sent (snd (get_headers E self s)) = sent s @ [token_request self]"
  using assms
  by (simp add: get_headers_def now_def requests_post_def logger_def token_request_def
      MICROSOFT_OAUTH2_URL_def MICROSOFT_OAUTH2_PATH_def Let_def
      split: sum.splits)

lemma get_headers_success:
  assumes "token_expiration_date s < clock E (ticks s)"
    and "fst (get_headers E self s) = Inr (Some h)"
  shows "\<exists>resp token_data access_token expires_in n.
           http E (sent s) (token_request self) = Inr resp \<and> ok resp \<and>
           resp_json resp = Inr token_data \<and>
           getitem token_data ''access_token'' = Inr access_token \<and>
           getitem token_data ''expires_in'' = Inr expires_in \<and>
           py_int (lib E) expires_in = Inr n \<and>
           h = bearer_headers E access_token \<and>
           headers (snd (get_headers E self s)) = Some h \<and>
           token_expiration_date (snd (get_headers E self s)) =
             clock E (Suc (ticks s)) + n * 1000000"
proof (cases "http E (sent s) (token_request self)")
  case (Inl e)
  with assms show ?thesis by (simp add: get_headers_raised)
next
  case (Inr resp)
  show ?thesis
  proof (cases "ok resp")
    case False
    with assms Inr show ?thesis by (simp add: get_headers_refused)
  next
    case True
    from assms(2) Inr True show ?thesis
      unfolding get_headers_granted [OF assms(1) Inr True]
      by (auto simp: timedelta_seconds_def datetime_add_def split: sum.splits if_splits)
  qed
qed

lemma send_no_conversation_id:
  "getitem (conversation self) ''id'' = Inl e \<Longrightarrow> send E self r m s = (Inl e, s)"
  by (simp add: send_def)

lemma send_posts:
  "getitem (conversation self) ''id'' = Inr cid \<Longrightarrow>
   get_headers E self s = (Inr h, s1) \<Longrightarrow>
   send E self r m s =
     (case http E (sent s1) (activity_request E self r m cid h) of
        Inl e \<Rightarrow> (Inl e, s1\<lparr>sent := sent s1 @ [activity_request E self r m cid h]\<rparr>)
      | Inr resp \<Rightarrow>
          (Inr (),
           if ok resp then s1\<lparr>sent := sent s1 @ [activity_request E self r m cid h]\<rparr>
           else s1\<lparr>sent := sent s1 @ [activity_request E self r m cid h],
                   logged := logged s1 @
                     [Log_error (''Error trying to send botframework messge. Response: '' @
                                 resp_text resp)]\<rparr>))"
  by (simp add: send_def requests_post_def logger_def activity_request_def base_envelope_def
      split: sum.splits)

lemma map_of_dict_update:
  "distinct (map fst m) \<Longrightarrow>
   map_of (dict_update d m) k = (case map_of m k of Some v \<Rightarrow> Some v | None \<Rightarrow> map_of d k)"
  unfolding dict_update_def
proof (induction m arbitrary: d)
  case Nil
  then show ?case by simp
next
  case (Cons x m)
  obtain a b where x: "x = (a, b)" by (cases x)
  from Cons.prems have d: "distinct (map fst m)" and a: "a \<notin> fst ` set m"
    by (simp_all add: x)
  from a have none: "map_of m a = None" by (simp add: map_of_eq_None_iff)
  show ?case
    using Cons.IH [OF d, of "AList.update a b d"] none
    by (simp add: x update_conv' split: option.splits)
qed

section \<open>What splitting computes\<close>

lemma split_paragraphs_not_Nil: "split_paragraphs cur t \<noteq> []"
  by (induction cur t rule: split_paragraphs.induct) simp_all

lemma join_paragraphs_Cons:
  "ys \<noteq> [] \<Longrightarrow> join_paragraphs (x # ys) = x @ separator @ join_paragraphs ys"
  by (cases ys) simp_all

lemma join_split_paragraphs: "join_paragraphs (split_paragraphs cur t) = cur @ t"
proof (induction cur t rule: split_paragraphs.induct)
  case (3 cur c d rest)
  then show ?case
    by (simp add: join_paragraphs_Cons split_paragraphs_not_Nil separator_def)
qed simp_all

lemma has_separator_append: "has_separator xs \<Longrightarrow> has_separator (xs @ ys)"
proof (induction xs rule: has_separator.induct)
  case (1 c d rest)
  then show ?case by auto
qed simp_all

lemma has_separator_snoc:
  "has_separator (xs @ [c, d]) =
     (has_separator (xs @ [c]) \<or> (c = CHR 0x0A \<and> d = CHR 0x0A))"
proof (induction xs rule: has_separator.induct)
  case (1 a b rest)
  then show ?case by auto
qed simp_all

lemma split_paragraphs_segments:
  "\<not> has_separator (cur @ take 1 t) \<Longrightarrow> filter has_separator (split_paragraphs cur t) = []"
proof (induction cur t rule: split_paragraphs.induct)
  case (1 cur)
  then show ?case by simp
next
  case (2 cur c)
  then show ?case by simp
next
  case (3 cur c d rest)
  show ?case
  proof (cases "c = CHR 0x0A \<and> d = CHR 0x0A")
    case True
    have "\<not> has_separator cur"
      using "3.prems" has_separator_append [of cur "[c]"] by auto
    moreover have "\<not> has_separator ([] @ take 1 rest)"
      by (cases rest) simp_all
    ultimately show ?thesis
      using True "3.IH"(1) by simp
  next
    case False
    have "\<not> has_separator ((cur @ [c]) @ take 1 (d # rest))"
      using "3.prems" False has_separator_snoc [of cur c d] by simp
    then show ?thesis
      using False "3.IH"(2) by auto
  qed
qed

section \<open>The activities a call posts\<close>

lemma posted_bodies_get_headers:
  "posted_bodies (snd (get_headers E self s)) = posted_bodies s"
proof (cases "token_expiration_date s < clock E (ticks s)")
  case True
  then show ?thesis
    by (simp add: posted_bodies_def get_headers_one_post token_request_def)
next
  case False
  then show ?thesis
    by (simp add: posted_bodies_def get_headers_cached)
qed

lemma send_headers_raise:
  "getitem (conversation self) ''id'' = Inr cid \<Longrightarrow>
   get_headers E self s = (Inl e, s1) \<Longrightarrow> send E self r m s = (Inl e, s1)"
  by (simp add: send_def)

lemma posted_bodies_send:
  assumes "send E self r m s = (Inr u, s')"
  shows "posted_bodies s' =
           posted_bodies s @ [JObj (dict_update (base_envelope self r) m)]"
proof (cases "getitem (conversation self) ''id''")
  case (Inl e)
  with assms show ?thesis by (simp add: send_no_conversation_id)
next
  case (Inr cid)
  obtain res s1 where g: "get_headers E self s = (res, s1)"
    by (cases "get_headers E self s")
  then have b: "posted_bodies s1 = posted_bodies s"
    using posted_bodies_get_headers [of E self s] by simp
  show ?thesis
  proof (cases res)
    case (Inl e)
    with assms Inr g show ?thesis by (simp add: send_headers_raise)
  next
    case h: (Inr h)
    from assms have "posted_bodies s' =
        posted_bodies s1 @ [JObj (dict_update (base_envelope self r) m)]"
      unfolding send_posts [OF Inr g [unfolded h]]
      by (auto simp: posted_bodies_def activity_request_def split: sum.splits if_splits)
    with b show ?thesis by simp
  qed
qed

lemma posted_bodies_send_parts:
  "send_parts E self r parts s = (Inr u, s') \<Longrightarrow>
   posted_bodies s' = posted_bodies s @ map (text_body self r) parts"
proof (induction parts arbitrary: s)
  case Nil
  then show ?case by simp
next
  case (Cons part parts)
  obtain res s1 where first: "send E self r [(''text'', JStr part)] s = (res, s1)"
    by (cases "send E self r [(''text'', JStr part)] s")
  show ?case
  proof (cases res)
    case (Inl e)
    with Cons.prems first show ?thesis by simp
  next
    case (Inr v)
    with Cons.prems first have rest: "send_parts E self r parts s1 = (Inr u, s')"
      by simp
    from first Inr have "posted_bodies s1 = posted_bodies s @ [text_body self r part]"
      by (simp add: posted_bodies_send text_body_def)
    with Cons.IH [OF rest] show ?thesis by simp
  qed
qed

lemma send_returns:
  assumes "getitem (conversation self) ''id'' = Inr cid"
    and "\<not> token_expiration_date s < clock E (ticks s)"
    and "\<forall>hist q. \<exists>answer. http E hist q = Inr answer"
  shows "\<exists>s'. send E self r m s = (Inr (), s') \<and> ticks s' = Suc (ticks s) \<and>
              token_expiration_date s' = token_expiration_date s"
proof -
  let ?s1 = "s\<lparr>ticks := Suc (ticks s)\<rparr>"
  let ?q = "activity_request E self r m cid (headers s)"
  from assms(3) obtain answer where "http E (sent ?s1) ?q = Inr answer"
    by blast
  then show ?thesis
    by (simp add: send_posts [OF assms(1) get_headers_cached [OF assms(2)]])
qed

lemma send_parts_returns:
  assumes "getitem (conversation self) ''id'' = Inr cid"
    and "\<forall>n < length parts. \<not> token_expiration_date s < clock E (ticks s + n)"
    and "\<forall>hist q. \<exists>answer. http E hist q = Inr answer"
  shows "\<exists>s'. send_parts E self r parts s = (Inr (), s')"
  using assms(2)
proof (induction parts arbitrary: s)
  case Nil
  then show ?case by simp
next
  case (Cons part parts)
  from Cons.prems have now: "\<not> token_expiration_date s < clock E (ticks s)"
    by force
  from send_returns [OF assms(1) now assms(3), of r "[(''text'', JStr part)]"]
  obtain s1 where first: "send E self r [(''text'', JStr part)] s = (Inr (), s1)"
    and t: "ticks s1 = Suc (ticks s)"
    and d: "token_expiration_date s1 = token_expiration_date s"
    by blast
  have "\<forall>n < length parts. \<not> token_expiration_date s1 < clock E (ticks s1 + n)"
  proof (intro allI impI)
    fix n
    assume "n < length parts"
    then have "Suc n < length (part # parts)" by simp
    with Cons.prems have "\<not> token_expiration_date s < clock E (ticks s + Suc n)"
      by blast
    then show "\<not> token_expiration_date s1 < clock E (ticks s1 + n)"
      by (simp add: t d)
  qed
  from Cons.IH [OF this] first show ?case
    by simp
qed

section \<open>The token cache\<close>

text \<open>
  C5. If the cached expiration date is later than the clock reading taken by the call,
  obtaining headers issues no request and returns the cached headers; the cache is left
  as it was.
\<close>

theorem get_headers_reuses_valid_token:
  assumes "clock E (ticks s) < token_expiration_date s"
  shows "fst (get_headers E self s) = Inr (headers s) \<and>
         sent (snd (get_headers E self s)) = sent s \<and>
         headers (snd (get_headers E self s)) = headers s \<and>
         token_expiration_date (snd (get_headers E self s)) = token_expiration_date s"
  using assms by (simp add: get_headers_cached)

theorem get_headers_reuses_valid_token_witness:
  "clock example_env (ticks cached_state) < token_expiration_date cached_state \<and>
   fst (get_headers example_env example_channel cached_state) =
     Inr (Some [(''content-type'', ''application/json''),
                (''Authorization'', ''Bearer old'')]) \<and>
   sent (snd (get_headers example_env example_channel cached_state)) = []"
  using get_headers_reuses_valid_token [of example_env cached_state example_channel]
  by (simp add: example_env_def cached_state_def example_clock_def)

text \<open>
  C6, as the claim states it, fails: the first call on a fresh cache reads the clock at
  100 s to compare, and again at 105 s once the token endpoint has answered; the stored
  expiration date is 105 s + 3600 s, not the call-time reading plus 3600 s.
\<close>

theorem expiry_is_not_call_time_plus_expires_in:
  "token_expiration_date initial_state < clock example_env (ticks initial_state) \<and>
   http example_env (sent initial_state) (token_request example_channel) = Inr token_reply \<and>
   getitem (JObj [(''token_type'', JStr ''Bearer''), (''expires_in'', JInt 3600),
                  (''access_token'', JStr ''tok'')]) ''expires_in'' = Inr (JInt 3600) \<and>
   fst (get_headers example_env example_channel initial_state) =
     Inr (Some [(''content-type'', ''application/json''),
                (''Authorization'', ''Bearer tok'')]) \<and>
   token_expiration_date (snd (get_headers example_env example_channel initial_state)) \<noteq>
     clock example_env (ticks initial_state) + 3600 * 1000000"
  by (simp add: get_headers_def now_def requests_post_def example_env_def example_channel_def
      initial_state_def example_clock_def token_reply_def getitem_def py_int_def
      timedelta_seconds_def datetime_add_def datetime_end_def format_value_def
      token_request_def BotFramework_def MICROSOFT_OAUTH2_URL_def MICROSOFT_OAUTH2_PATH_def)

text \<open>
  C6, amended. If the cached expiration date is earlier than the clock reading taken by
  the call (a token never fetched has the class creation time as its date), obtaining
  headers issues exactly one request, the POST to the OAuth2 token endpoint; and when it
  returns headers, the token endpoint answered with \<^verbatim>\<open>ok\<close> true and a JSON object, the
  headers carry its \<^verbatim>\<open>access_token\<close>, and the stored expiration date is the clock
  reading taken after the answer arrived plus \<^verbatim>\<open>int(expires_in)\<close> seconds.
\<close>

theorem get_headers_refreshes_expired_token:
  assumes "token_expiration_date s < clock E (ticks s)"
  shows "sent (snd (get_headers E self s)) = sent s @ [token_request self] \<and>
         (\<forall>h. fst (get_headers E self s) = Inr (Some h) \<longrightarrow>
            (\<exists>resp token_data access_token expires_in n.
               http E (sent s) (token_request self) = Inr resp \<and> ok resp \<and>
               resp_json resp = Inr token_data \<and>
               getitem token_data ''access_token'' = Inr access_token \<and>
               getitem token_data ''expires_in'' = Inr expires_in \<and>
               py_int (lib E) expires_in = Inr n \<and>
               h = bearer_headers E access_token \<and>
               headers (snd (get_headers E self s)) = Some h \<and>
               token_expiration_date (snd (get_headers E self s)) =
                 clock E (Suc (ticks s)) + n * 1000000))"
  using assms get_headers_one_post [of s E self] get_headers_success [of s E self]
  by blast

theorem get_headers_refreshes_expired_token_witness:
  "token_expiration_date initial_state < clock example_env (ticks initial_state) \<and>
   sent (snd (get_headers example_env example_channel initial_state)) =
     [token_request example_channel] \<and>
   fst (get_headers example_env example_channel initial_state) =
     Inr (Some [(''content-type'', ''application/json''),
                (''Authorization'', ''Bearer tok'')]) \<and>
   token_expiration_date (snd (get_headers example_env example_channel initial_state)) =
     clock example_env (Suc (ticks initial_state)) + 3600 * 1000000"
proof -
  have expired: "token_expiration_date initial_state < clock example_env (ticks initial_state)"
    by (simp add: initial_state_def example_env_def example_clock_def)
  have reply: "http example_env (sent initial_state) (token_request example_channel) =
                 Inr token_reply"
    by (simp add: example_env_def token_request_def)
  have granted: "ok token_reply"
    by (simp add: token_reply_def)
  have result: "fst (get_headers example_env example_channel initial_state) =
     Inr (Some [(''content-type'', ''application/json''),
                (''Authorization'', ''Bearer tok'')])"
    unfolding get_headers_granted [OF expired reply granted]
    by (simp add: token_reply_def getitem_def py_int_def timedelta_seconds_def
        datetime_add_def datetime_end_def bearer_headers_def format_value_def
        example_env_def example_clock_def initial_state_def)
  from get_headers_refreshes_expired_token [OF expired, of example_channel] result
  obtain resp token_data expires_in n where
    "http example_env (sent initial_state) (token_request example_channel) = Inr resp"
    "resp_json resp = Inr token_data"
    "getitem token_data ''expires_in'' = Inr expires_in"
    "py_int (lib example_env) expires_in = Inr n"
    "token_expiration_date (snd (get_headers example_env example_channel initial_state)) =
       clock example_env (Suc (ticks initial_state)) + n * 1000000"
    and one: "sent (snd (get_headers example_env example_channel initial_state)) =
       sent initial_state @ [token_request example_channel]"
    by blast
  then have "token_expiration_date
               (snd (get_headers example_env example_channel initial_state)) =
             clock example_env (Suc (ticks initial_state)) + 3600 * 1000000"
    by (auto simp: reply token_reply_def getitem_def py_int_def)
  with expired result one show ?thesis
    by (simp add: initial_state_def)
qed

section \<open>Sending a fragment\<close>

text \<open>
  Where the service URL ends with a slash, \<^verbatim>\<open>send\<close> posts to the URL of the template
  \<^verbatim>\<open>{base}/v3/conversations/{conversation_id}/activities\<close>, \<open>base\<close> being the service URL
  without that slash, with the headers obtained, a timeout of 60 and the JSON body made
  of the base envelope (\<^verbatim>\<open>type\<close> = message, \<^verbatim>\<open>recipient.id\<close> = the recipient id, \<^verbatim>\<open>from\<close> =
  the bot identity, the notification alert flag, an empty \<^verbatim>\<open>text\<close>) updated with the
  fragment: a key of the fragment takes the fragment's value, any other key keeps the
  envelope's.
\<close>

lemma send_request_with_trailing_slash:
  assumes "getitem conversation' ''id'' = Inr cid"
    and "get_headers E (BotFramework E a p conversation' bot_identity (JStr (base @ ''/''))) s =
           (Inr h, s1)"
    and "distinct (map fst m)"
  shows "sent (snd (send E (BotFramework E a p conversation' bot_identity (JStr (base @ ''/'')))
                      r m s)) =
           sent s1 @
           [\<lparr>uri = base @ ''/v3/conversations/'' @ format_value (lib E) cid @ ''/activities'',
             req_headers = h,
             req_data = Json_dumps (JObj (dict_update
               [(''type'', JStr ''message''),
                (''recipient'', JObj [(''id'', r)]),
                (''from'', bot_identity),
                (''channelData'', JObj [(''notification'', JObj [(''alert'', JStr ''true'')])]),
                (''text'', JStr [])] m)),
             timeout = 60\<rparr>] \<and>
         (\<forall>k. map_of (dict_update
               [(''type'', JStr ''message''),
                (''recipient'', JObj [(''id'', r)]),
                (''from'', bot_identity),
                (''channelData'', JObj [(''notification'', JObj [(''alert'', JStr ''true'')])]),
                (''text'', JStr [])] m) k =
              (case map_of m k of
                 Some v \<Rightarrow> Some v
               | None \<Rightarrow>
                   map_of [(''type'', JStr ''message''),
                           (''recipient'', JObj [(''id'', r)]),
                           (''from'', bot_identity),
                           (''channelData'',
                            JObj [(''notification'', JObj [(''alert'', JStr ''true'')])]),
                           (''text'', JStr [])] k))"
proof -
  let ?self = "BotFramework E a p conversation' bot_identity (JStr (base @ ''/''))"
  have c: "getitem (conversation ?self) ''id'' = Inr cid"
    using assms(1) by (simp add: BotFramework_def)
  have "sent (snd (send E ?self r m s)) = sent s1 @ [activity_request E ?self r m cid h]"
    by (simp add: send_posts [OF c assms(2)] split: sum.splits)
  then show ?thesis
    using assms(3)
    by (simp add: activity_request_def base_envelope_def BotFramework_def map_of_dict_update
        format_value_def)
qed

text \<open>
  C4. For the service URL \<^verbatim>\<open>https://smba.trafficmanager.net/emea\<close>, which does not end
  with a slash, and the conversation \<^verbatim>\<open>c1\<close>, the URL of the claim is
  \<^verbatim>\<open>https://smba.trafficmanager.net/emea/v3/conversations/c1/activities\<close>; \<^verbatim>\<open>send\<close>
  posts to \<^verbatim>\<open>https://smba.trafficmanager.net/emeav3/conversations/c1/activities\<close>, because
  \<^verbatim>\<open>__init__\<close> appends \<^verbatim>\<open>v3/\<close> to the service URL without a separator. The body is the
  envelope updated with the fragment, as the claim says.
\<close>

theorem send_uri_lacks_separator:
  "sent (snd (send example_env
      (BotFramework example_env (JStr ''app'') (JStr ''secret'') (JObj [(''id'', JStr ''c1'')])
         (JObj [(''id'', JStr ''bot'')]) (JStr ''https://smba.trafficmanager.net/emea''))
      (JStr ''user'') [(''text'', JStr ''hi'')] cached_state)) =
     [\<lparr>uri = ''https://smba.trafficmanager.net/emeav3/conversations/c1/activities'',
       req_headers = Some [(''content-type'', ''application/json''),
                           (''Authorization'', ''Bearer old'')],
       req_data = Json_dumps (JObj
         [(''type'', JStr ''message''),
          (''recipient'', JObj [(''id'', JStr ''user'')]),
          (''from'', JObj [(''id'', JStr ''bot'')]),
          (''channelData'', JObj [(''notification'', JObj [(''alert'', JStr ''true'')])]),
          (''text'', JStr ''hi'')]),
       timeout = 60\<rparr>] \<and>
   ''https://smba.trafficmanager.net/emeav3/conversations/c1/activities'' \<noteq>
     ''https://smba.trafficmanager.net/emea'' @ ''/v3/conversations/'' @ ''c1'' @ ''/activities''"
  by (simp add: send_def get_headers_def now_def requests_post_def example_env_def
      cached_state_def example_clock_def accepted_def getitem_def format_value_def
      dict_update_def BotFramework_def)

text \<open>
  C2, as the claim states it, fails: when the token endpoint answers 401, \<^verbatim>\<open>send\<close> goes on
  and posts the activity with \<^verbatim>\<open>headers=None\<close>, that is with no authorization header.
\<close>

theorem activity_posted_without_authorization:
  "token_expiration_date initial_state < clock refusing_env (ticks initial_state) \<and>
   http refusing_env (sent initial_state) (token_request example_channel) = Inr unauthorized \<and>
   \<not> ok unauthorized \<and>
   sent (snd (send refusing_env example_channel (JStr ''user'') [(''text'', JStr ''hi'')]
                initial_state)) =
     [token_request example_channel,
      \<lparr>uri = ''https://webchat.botframework.com/v3/conversations/c1/activities'',
       req_headers = None,
       req_data = Json_dumps (JObj
         [(''type'', JStr ''message''),
          (''recipient'', JObj [(''id'', JStr ''user'')]),
          (''from'', JObj [(''id'', JStr ''bot'')]),
          (''channelData'', JObj [(''notification'', JObj [(''alert'', JStr ''true'')])]),
          (''text'', JStr ''hi'')]),
       timeout = 60\<rparr>]"
  by (simp add: send_def get_headers_def now_def requests_post_def refusing_env_def
      example_channel_def initial_state_def example_clock_def unauthorized_def getitem_def
      format_value_def logger_def dict_update_def token_request_def BotFramework_def
      MICROSOFT_OAUTH2_URL_def MICROSOFT_OAUTH2_PATH_def)

text \<open>
  C2, amended. When the cached token has expired and the token endpoint answers with an
  error status (\<^verbatim>\<open>ok\<close> is false), the token cache (expiration date and headers) is left
  unchanged and \<^verbatim>\<open>_get_headers\<close> returns \<^verbatim>\<open>None\<close>; \<^verbatim>\<open>send\<close> then issues its POST with
  \<^verbatim>\<open>headers=None\<close>, and whenever that POST is answered, \<^verbatim>\<open>send\<close> returns without raising.
\<close>

theorem send_after_refused_token:
  assumes "token_expiration_date s < clock E (ticks s)"
    and "http E (sent s) (token_request self) = Inr resp"
    and "\<not> ok resp"
    and "getitem (conversation self) ''id'' = Inr cid"
  shows "fst (get_headers E self s) = Inr None \<and>
         token_expiration_date (snd (get_headers E self s)) = token_expiration_date s \<and>
         headers (snd (get_headers E self s)) = headers s \<and>
         sent (snd (send E self r m s)) =
           sent s @ [token_request self, activity_request E self r m cid None] \<and>
         req_headers (activity_request E self r m cid None) = None \<and>
         token_expiration_date (snd (send E self r m s)) = token_expiration_date s \<and>
         headers (snd (send E self r m s)) = headers s \<and>
         (\<forall>answer. http E (sent s @ [token_request self])
                     (activity_request E self r m cid None) = Inr answer \<longrightarrow>
                   fst (send E self r m s) = Inr ())"
  using assms
  by (simp add: get_headers_refused send_posts [OF assms(4) get_headers_refused [OF assms(1-3)]]
      activity_request_def split: sum.splits)

theorem send_after_refused_token_witness:
  "token_expiration_date initial_state < clock refusing_env (ticks initial_state) \<and>
   http refusing_env (sent initial_state) (token_request example_channel) = Inr unauthorized \<and>
   \<not> ok unauthorized \<and>
   getitem (conversation example_channel) ''id'' = Inr (JStr ''c1'') \<and>
   fst (get_headers refusing_env example_channel initial_state) = Inr None \<and>
   headers (snd (send refusing_env example_channel (JStr ''user'') [(''text'', JStr ''hi'')]
                   initial_state)) = None \<and>
   fst (send refusing_env example_channel (JStr ''user'') [(''text'', JStr ''hi'')]
          initial_state) = Inr ()"
proof -
  have expired: "token_expiration_date initial_state < clock refusing_env (ticks initial_state)"
    by (simp add: initial_state_def refusing_env_def example_clock_def)
  have refused: "http refusing_env (sent initial_state) (token_request example_channel) =
                   Inr unauthorized"
    by (simp add: refusing_env_def)
  have status: "\<not> ok unauthorized"
    by (simp add: unauthorized_def)
  have c: "getitem (conversation example_channel) ''id'' = Inr (JStr ''c1'')"
    by (simp add: example_channel_def BotFramework_def getitem_def)
  show ?thesis
    using send_after_refused_token [OF expired refused status c, of "JStr ''user''"
        "[(''text'', JStr ''hi'')]"]
    by (simp add: expired refused status c) (simp add: refusing_env_def initial_state_def)
qed

text \<open>
  C8. Whatever the status of the answer to the POST of a fragment, \<^verbatim>\<open>send\<close> returns
  without raising; on an error status (\<^verbatim>\<open>ok\<close> is false) it has only added the answer to
  the log. In the loop of \<^verbatim>\<open>send_text_message\<close> the remaining fragments are then sent,
  starting from the state that delivery left.
\<close>

theorem failed_delivery_is_local:
  assumes "getitem (conversation self) ''id'' = Inr cid"
    and "get_headers E self s = (Inr h, s1)"
    and "http E (sent s1) (activity_request E self r m cid h) = Inr answer"
  shows "fst (send E self r m s) = Inr () \<and>
         (\<not> ok answer \<longrightarrow>
            snd (send E self r m s) =
              s1\<lparr>sent := sent s1 @ [activity_request E self r m cid h],
                 logged := logged s1 @
                   [Log_error (''Error trying to send botframework messge. Response: '' @
                               resp_text answer)]\<rparr>) \<and>
         (m = [(''text'', JStr part)] \<longrightarrow>
            send_parts E self r (part # parts) s =
              send_parts E self r parts (snd (send E self r m s)) \<and>
            (split_paragraphs [] message = part # parts \<longrightarrow>
               send_text_message E self r message s =
                 send_parts E self r parts (snd (send E self r m s))))"
proof -
  obtain s2 where sent: "send E self r m s = (Inr (), s2)"
    and failed: "\<not> ok answer \<Longrightarrow>
      s2 = s1\<lparr>sent := sent s1 @ [activity_request E self r m cid h],
              logged := logged s1 @
                [Log_error (''Error trying to send botframework messge. Response: '' @
                            resp_text answer)]\<rparr>"
    using assms(3) by (simp add: send_posts [OF assms(1,2)])
  then show ?thesis
    by (auto simp: send_text_message_def)
qed

theorem failed_delivery_is_local_witness:
  "getitem (conversation example_channel) ''id'' = Inr (JStr ''c1'') \<and>
   \<not> ok unauthorized \<and>
   split_paragraphs [] [CHR ''A'', CHR 0x0A, CHR 0x0A, CHR ''B''] = [''A'', ''B''] \<and>
   fst (send refusing_env example_channel (JStr ''user'') [(''text'', JStr ''A'')]
          cached_state) = Inr () \<and>
   send_text_message refusing_env example_channel (JStr ''user'')
       [CHR ''A'', CHR 0x0A, CHR 0x0A, CHR ''B''] cached_state =
     send_parts refusing_env example_channel (JStr ''user'') [''B'']
       (snd (send refusing_env example_channel (JStr ''user'') [(''text'', JStr ''A'')]
               cached_state)) \<and>
   map req_data
     (sent (snd (send_text_message refusing_env example_channel (JStr ''user'')
                   [CHR ''A'', CHR 0x0A, CHR 0x0A, CHR ''B''] cached_state))) =
     [req_data (activity_request refusing_env example_channel (JStr ''user'')
                  [(''text'', JStr ''A'')] (JStr ''c1'') None),
      req_data (activity_request refusing_env example_channel (JStr ''user'')
                  [(''text'', JStr ''B'')] (JStr ''c1'') None)]"
proof -
  have c: "getitem (conversation example_channel) ''id'' = Inr (JStr ''c1'')"
    by (simp add: example_channel_def BotFramework_def getitem_def)
  have valid: "\<not> token_expiration_date cached_state < clock refusing_env (ticks cached_state)"
    by (simp add: cached_state_def refusing_env_def example_clock_def)
  have answer: "http refusing_env (sent (cached_state\<lparr>ticks := Suc (ticks cached_state)\<rparr>))
                  (activity_request refusing_env example_channel (JStr ''user'')
                     [(''text'', JStr ''A'')] (JStr ''c1'') (headers cached_state)) =
                Inr unauthorized"
    by (simp add: refusing_env_def)
  have status: "\<not> ok unauthorized"
    by (simp add: unauthorized_def)
  have parts: "split_paragraphs [] [CHR ''A'', CHR 0x0A, CHR 0x0A, CHR ''B''] = [''A'', ''B'']"
    by simp
  have log: "map req_data
     (sent (snd (send_text_message refusing_env example_channel (JStr ''user'')
                   [CHR ''A'', CHR 0x0A, CHR 0x0A, CHR ''B''] cached_state))) =
     [req_data (activity_request refusing_env example_channel (JStr ''user'')
                  [(''text'', JStr ''A'')] (JStr ''c1'') None),
      req_data (activity_request refusing_env example_channel (JStr ''user'')
                  [(''text'', JStr ''B'')] (JStr ''c1'') None)]"
    by (simp add: send_text_message_def send_def get_headers_def now_def requests_post_def
        refusing_env_def example_channel_def cached_state_def example_clock_def
        unauthorized_def getitem_def format_value_def logger_def dict_update_def
        BotFramework_def activity_request_def base_envelope_def)
  note local = failed_delivery_is_local [OF c get_headers_cached [OF valid] answer,
        of "''A''" "[''B'']" "[CHR ''A'', CHR 0x0A, CHR 0x0A, CHR ''B'']"]
  from local have returned:
    "fst (send refusing_env example_channel (JStr ''user'') [(''text'', JStr ''A'')]
            cached_state) = Inr ()"
    by blast
  from local parts have continued:
    "send_text_message refusing_env example_channel (JStr ''user'')
         [CHR ''A'', CHR 0x0A, CHR 0x0A, CHR ''B''] cached_state =
       send_parts refusing_env example_channel (JStr ''user'') [''B'']
         (snd (send refusing_env example_channel (JStr ''user'') [(''text'', JStr ''A'')]
                 cached_state))"
    by blast
  from c status parts returned continued log show ?thesis
    by blast
qed



section \<open>Sending text\<close>

text \<open>
  C7. On the text A, B, C with a double line feed between the letters,
  \<^verbatim>\<open>send_text_message\<close> is \<^verbatim>\<open>send\<close> on A, then \<^verbatim>\<open>send\<close> on B, then \<^verbatim>\<open>send\<close> on C, each from
  the state the one before left, and when it returns it has posted exactly three
  activities, carrying A, B and C in that order; on the text \<^verbatim>\<open>single\<close> it is one \<^verbatim>\<open>send\<close>
  and posts exactly one activity.
\<close>

theorem send_text_message_one_send_per_paragraph:
  "split_paragraphs []
     [CHR ''A'', CHR 0x0A, CHR 0x0A, CHR ''B'', CHR 0x0A, CHR 0x0A, CHR ''C''] =
     [''A'', ''B'', ''C''] \<and>
   send_text_message E self r
       [CHR ''A'', CHR 0x0A, CHR 0x0A, CHR ''B'', CHR 0x0A, CHR 0x0A, CHR ''C''] s =
     (case send E self r [(''text'', JStr ''A'')] s of
        (Inl e, s1) \<Rightarrow> (Inl e, s1)
      | (Inr _, s1) \<Rightarrow>
          (case send E self r [(''text'', JStr ''B'')] s1 of
             (Inl e, s2) \<Rightarrow> (Inl e, s2)
           | (Inr _, s2) \<Rightarrow> send E self r [(''text'', JStr ''C'')] s2)) \<and>
   (\<forall>s'. send_text_message E self r
            [CHR ''A'', CHR 0x0A, CHR 0x0A, CHR ''B'', CHR 0x0A, CHR 0x0A, CHR ''C''] s =
            (Inr (), s') \<longrightarrow>
         posted_bodies s' =
           posted_bodies s @
           [text_body self r ''A'', text_body self r ''B'', text_body self r ''C'']) \<and>
   split_paragraphs [] ''single'' = [''single''] \<and>
   send_text_message E self r ''single'' s = send E self r [(''text'', JStr ''single'')] s \<and>
   (\<forall>s'. send_text_message E self r ''single'' s = (Inr (), s') \<longrightarrow>
         posted_bodies s' = posted_bodies s @ [text_body self r ''single''])"
proof -
  have three: "split_paragraphs []
     [CHR ''A'', CHR 0x0A, CHR 0x0A, CHR ''B'', CHR 0x0A, CHR 0x0A, CHR ''C''] =
     [''A'', ''B'', ''C'']"
    by simp
  have one: "split_paragraphs [] ''single'' = [''single'']"
    by simp
  have seq3: "send_text_message E self r
       [CHR ''A'', CHR 0x0A, CHR 0x0A, CHR ''B'', CHR 0x0A, CHR 0x0A, CHR ''C''] s =
     (case send E self r [(''text'', JStr ''A'')] s of
        (Inl e, s1) \<Rightarrow> (Inl e, s1)
      | (Inr _, s1) \<Rightarrow>
          (case send E self r [(''text'', JStr ''B'')] s1 of
             (Inl e, s2) \<Rightarrow> (Inl e, s2)
           | (Inr _, s2) \<Rightarrow> send E self r [(''text'', JStr ''C'')] s2))"
    unfolding send_text_message_def three
    by (simp split: prod.splits sum.splits)
  have seq1: "send_text_message E self r ''single'' s =
                send E self r [(''text'', JStr ''single'')] s"
    unfolding send_text_message_def one
    by (simp split: prod.splits sum.splits)
  have log3: "posted_bodies s' =
           posted_bodies s @
           [text_body self r ''A'', text_body self r ''B'', text_body self r ''C'']"
    if "send_text_message E self r
            [CHR ''A'', CHR 0x0A, CHR 0x0A, CHR ''B'', CHR 0x0A, CHR 0x0A, CHR ''C''] s =
            (Inr (), s')" for s'
    using that posted_bodies_send_parts [of E self r "[''A'', ''B'', ''C'']" s "()" s']
    unfolding send_text_message_def three by simp
  have log1: "posted_bodies s' = posted_bodies s @ [text_body self r ''single'']"
    if "send_text_message E self r ''single'' s = (Inr (), s')" for s'
    using that posted_bodies_send_parts [of E self r "[''single'']" s "()" s']
    unfolding send_text_message_def one by simp
  from three one seq3 seq1 log3 log1 show ?thesis
    by blast
qed

theorem send_text_message_one_send_per_paragraph_witness:
  "fst (send_text_message example_env example_channel (JStr ''user'')
       [CHR ''A'', CHR 0x0A, CHR 0x0A, CHR ''B'', CHR 0x0A, CHR 0x0A, CHR ''C'']
       cached_state) = Inr () \<and>
   posted_bodies (snd (send_text_message example_env example_channel (JStr ''user'')
       [CHR ''A'', CHR 0x0A, CHR 0x0A, CHR ''B'', CHR 0x0A, CHR 0x0A, CHR ''C'']
       cached_state)) =
     [text_body example_channel (JStr ''user'') ''A'',
      text_body example_channel (JStr ''user'') ''B'',
      text_body example_channel (JStr ''user'') ''C''] \<and>
   fst (send_text_message example_env example_channel (JStr ''user'') ''single''
       cached_state) = Inr () \<and>
   posted_bodies (snd (send_text_message example_env example_channel (JStr ''user'')
       ''single'' cached_state)) =
     [text_body example_channel (JStr ''user'') ''single'']"
proof -
  let ?abc = "[CHR ''A'', CHR 0x0A, CHR 0x0A, CHR ''B'', CHR 0x0A, CHR 0x0A, CHR ''C'']"
  obtain s3 where r3: "send_text_message example_env example_channel (JStr ''user'') ?abc
                         cached_state = (Inr (), s3)"
    by (simp add: send_text_message_def send_def get_headers_def now_def requests_post_def
        example_env_def example_channel_def cached_state_def example_clock_def accepted_def
        getitem_def BotFramework_def)
  obtain s1 where r1: "send_text_message example_env example_channel (JStr ''user'')
                         ''single'' cached_state = (Inr (), s1)"
    by (simp add: send_text_message_def send_def get_headers_def now_def requests_post_def
        example_env_def example_channel_def cached_state_def example_clock_def accepted_def
        getitem_def BotFramework_def)
  have empty: "posted_bodies cached_state = []"
    by (simp add: posted_bodies_def cached_state_def)
  note paragraphs = send_text_message_one_send_per_paragraph
      [of example_env example_channel "JStr ''user''" cached_state]
  from paragraphs r3 have "posted_bodies s3 =
      posted_bodies cached_state @
      [text_body example_channel (JStr ''user'') ''A'',
       text_body example_channel (JStr ''user'') ''B'',
       text_body example_channel (JStr ''user'') ''C'']"
    by blast
  moreover from paragraphs r1 have "posted_bodies s1 =
      posted_bodies cached_state @ [text_body example_channel (JStr ''user'') ''single'']"
    by blast
  ultimately show ?thesis
    by (simp add: r3 r1 empty)
qed

text \<open>
  C3, as the claim states it, fails: the text A, four line feeds, B is split into A, the
  empty string and B, and the empty string is posted as a fragment of its own between
  the two.
\<close>

theorem empty_paragraph_is_sent:
  "split_paragraphs [] [CHR ''A'', CHR 0x0A, CHR 0x0A, CHR 0x0A, CHR 0x0A, CHR ''B''] =
     [''A'', [], ''B''] \<and>
   posted_bodies
     (snd (send_text_message example_env example_channel (JStr ''user'')
             [CHR ''A'', CHR 0x0A, CHR 0x0A, CHR 0x0A, CHR 0x0A, CHR ''B''] cached_state)) =
     [JObj [(''type'', JStr ''message''),
            (''recipient'', JObj [(''id'', JStr ''user'')]),
            (''from'', JObj [(''id'', JStr ''bot'')]),
            (''channelData'', JObj [(''notification'', JObj [(''alert'', JStr ''true'')])]),
            (''text'', JStr ''A'')],
      JObj [(''type'', JStr ''message''),
            (''recipient'', JObj [(''id'', JStr ''user'')]),
            (''from'', JObj [(''id'', JStr ''bot'')]),
            (''channelData'', JObj [(''notification'', JObj [(''alert'', JStr ''true'')])]),
            (''text'', JStr [])],
      JObj [(''type'', JStr ''message''),
            (''recipient'', JObj [(''id'', JStr ''user'')]),
            (''from'', JObj [(''id'', JStr ''bot'')]),
            (''channelData'', JObj [(''notification'', JObj [(''alert'', JStr ''true'')])]),
            (''text'', JStr ''B'')]]"
  by (simp add: send_text_message_def send_def get_headers_def now_def requests_post_def
      example_env_def example_channel_def cached_state_def example_clock_def accepted_def
      getitem_def format_value_def dict_update_def posted_bodies_def BotFramework_def)

text \<open>
  C3, amended. For every input text, splitting at the double line feed yields the
  segments between successive separators, empty segments included: there is at least
  one segment, no segment contains the separator, and the segments joined by the
  separator give the text back. \<^verbatim>\<open>send_text_message\<close> sends every segment: when it
  returns, it has posted one activity per segment, in order, each carrying its segment
  as text, the empty ones too; and it does return when the conversation has an id, the
  cached token is valid at the clock readings of the call and every POST is answered.
  In particular the text A, four line feeds, B is sent as the three fragments A, the
  empty string and B.
\<close>

theorem split_paragraphs_keeps_every_segment:
  "send_text_message E self r message s =
     send_parts E self r (split_paragraphs [] message) s \<and>
   split_paragraphs [] message \<noteq> [] \<and>
   filter has_separator (split_paragraphs [] message) = [] \<and>
   join_paragraphs (split_paragraphs [] message) = message \<and>
   (\<forall>s'. send_text_message E self r message s = (Inr (), s') \<longrightarrow>
         posted_bodies s' =
           posted_bodies s @ map (text_body self r) (split_paragraphs [] message)) \<and>
   (\<forall>cid. getitem (conversation self) ''id'' = Inr cid \<and>
          (\<forall>n < length (split_paragraphs [] message).
             \<not> token_expiration_date s < clock E (ticks s + n)) \<and>
          (\<forall>hist q. \<exists>answer. http E hist q = Inr answer) \<longrightarrow>
          fst (send_text_message E self r message s) = Inr ()) \<and>
   split_paragraphs [] [CHR ''A'', CHR 0x0A, CHR 0x0A, CHR 0x0A, CHR 0x0A, CHR ''B''] =
     [''A'', [], ''B''] \<and>
   text_body self r [] =
     JObj [(''type'', JStr ''message''),
           (''recipient'', JObj [(''id'', r)]),
           (''from'', bot_id self),
           (''channelData'', JObj [(''notification'', JObj [(''alert'', JStr ''true'')])]),
           (''text'', JStr [])]"
proof -
  have "\<not> has_separator ([] @ take 1 message)"
    by (cases message) simp_all
  then have segments: "filter has_separator (split_paragraphs [] message) = []"
    by (rule split_paragraphs_segments)
  have effect: "posted_bodies s' =
      posted_bodies s @ map (text_body self r) (split_paragraphs [] message)"
    if "send_text_message E self r message s = (Inr (), s')" for s'
    using that posted_bodies_send_parts [of E self r "split_paragraphs [] message" s "()" s']
    by (simp add: send_text_message_def)
  have returns: "fst (send_text_message E self r message s) = Inr ()"
    if "getitem (conversation self) ''id'' = Inr cid"
      and "\<forall>n < length (split_paragraphs [] message).
             \<not> token_expiration_date s < clock E (ticks s + n)"
      and "\<forall>hist q. \<exists>answer. http E hist q = Inr answer" for cid
    using send_parts_returns [OF that, of r] by (auto simp: send_text_message_def)
  have empty: "text_body self r [] =
     JObj [(''type'', JStr ''message''),
           (''recipient'', JObj [(''id'', r)]),
           (''from'', bot_id self),
           (''channelData'', JObj [(''notification'', JObj [(''alert'', JStr ''true'')])]),
           (''text'', JStr [])]"
    by (simp add: text_body_def base_envelope_def dict_update_def)
  have ab: "split_paragraphs [] [CHR ''A'', CHR 0x0A, CHR 0x0A, CHR 0x0A, CHR 0x0A, CHR ''B''] =
     [''A'', [], ''B'']"
    by simp
  have same: "send_text_message E self r message s =
     send_parts E self r (split_paragraphs [] message) s"
    by (simp add: send_text_message_def)
  from same split_paragraphs_not_Nil [of "[]" message] segments
    join_split_paragraphs [of "[]" message] effect returns ab empty
  show ?thesis
    by (simp only: append_Nil) blast
qed

theorem split_paragraphs_keeps_every_segment_witness:
  "getitem (conversation example_channel) ''id'' = Inr (JStr ''c1'') \<and>
   length (split_paragraphs []
             [CHR ''A'', CHR 0x0A, CHR 0x0A, CHR 0x0A, CHR 0x0A, CHR ''B'']) = 3 \<and>
   clock example_env (ticks cached_state + 0) \<le> token_expiration_date cached_state \<and>
   clock example_env (ticks cached_state + 1) \<le> token_expiration_date cached_state \<and>
   clock example_env (ticks cached_state + 2) \<le> token_expiration_date cached_state \<and>
   (\<forall>hist q. \<exists>answer. http example_env hist q = Inr answer) \<and>
   fst (send_text_message example_env example_channel (JStr ''user'')
          [CHR ''A'', CHR 0x0A, CHR 0x0A, CHR 0x0A, CHR 0x0A, CHR ''B''] cached_state) =
     Inr () \<and>
   posted_bodies
     (snd (send_text_message example_env example_channel (JStr ''user'')
             [CHR ''A'', CHR 0x0A, CHR 0x0A, CHR 0x0A, CHR 0x0A, CHR ''B''] cached_state)) =
     [text_body example_channel (JStr ''user'') ''A'',
      text_body example_channel (JStr ''user'') [],
      text_body example_channel (JStr ''user'') ''B'']"
proof -
  let ?ab = "[CHR ''A'', CHR 0x0A, CHR 0x0A, CHR 0x0A, CHR 0x0A, CHR ''B'']"
  have c: "getitem (conversation example_channel) ''id'' = Inr (JStr ''c1'')"
    by (simp add: example_channel_def BotFramework_def getitem_def)
  have valid: "\<forall>n < length (split_paragraphs [] ?ab).
      \<not> token_expiration_date cached_state < clock example_env (ticks cached_state + n)"
    by (simp add: cached_state_def example_env_def example_clock_def)
  have answered: "\<forall>hist q. \<exists>answer. http example_env hist q = Inr answer"
    by (simp add: example_env_def split: payload.splits)
  have empty: "posted_bodies cached_state = []"
    by (simp add: posted_bodies_def cached_state_def)
  have ab: "split_paragraphs [] ?ab = [''A'', [], ''B'']"
    by simp
  note segments = split_paragraphs_keeps_every_segment
      [of example_env example_channel "JStr ''user''" ?ab cached_state]
  from segments c valid answered have returned:
    "fst (send_text_message example_env example_channel (JStr ''user'') ?ab cached_state) =
       Inr ()"
    by blast
  then obtain s' where result:
    "send_text_message example_env example_channel (JStr ''user'') ?ab cached_state =
       (Inr (), s')"
    by (cases "send_text_message example_env example_channel (JStr ''user'') ?ab cached_state")
       simp
  from segments result have "posted_bodies s' =
      posted_bodies cached_state @
      map (text_body example_channel (JStr ''user'')) (split_paragraphs [] ?ab)"
    by blast
  then have posted: "posted_bodies s' =
     [text_body example_channel (JStr ''user'') ''A'',
      text_body example_channel (JStr ''user'') [],
      text_body example_channel (JStr ''user'') ''B'']"
    by (simp add: empty)
  have readings:
    "length (split_paragraphs [] ?ab) = 3 \<and>
     clock example_env (ticks cached_state + 0) \<le> token_expiration_date cached_state \<and>
     clock example_env (ticks cached_state + 1) \<le> token_expiration_date cached_state \<and>
     clock example_env (ticks cached_state + 2) \<le> token_expiration_date cached_state"
    by (simp add: cached_state_def example_env_def example_clock_def)
  from c readings answered returned posted show ?thesis
    unfolding result by simp
qed

section \<open>The webhook route\<close>

text \<open>
  C1, as the claim states it, fails: when the body does not decode, \<^verbatim>\<open>request.json\<close>
  raises before the \<^verbatim>\<open>try\<close> block is entered and the exception leaves the route; no
  \<^verbatim>\<open>success\<close> reply is returned.
\<close>

theorem undecodable_body_is_not_acknowledged:
  "fst (webhook example_env example_input example_callback undecodable_request initial_state) =
     Inl (LibError ''InvalidUsage'') \<and>
   fst (webhook example_env example_input example_callback undecodable_request initial_state) \<noteq>
     Inr \<lparr>status = 200, body = ''success''\<rparr>"
  by (simp add: webhook_def undecodable_request_def)

text \<open>
  C1, amended. For every inbound POST whose body \<^verbatim>\<open>request.json\<close> decodes (an empty body
  decodes to \<^verbatim>\<open>None\<close>), whether the event is a well-formed message, another type of
  event or an event with missing fields, and whatever the pipeline callback does, the
  route catches any exception raised while it reads the event or dispatches it and
  returns HTTP 200 with the text body \<^verbatim>\<open>success\<close>; an exception raised by \<^verbatim>\<open>request.json\<close>
  itself leaves the route.
\<close>

theorem webhook_acknowledges_decoded_body:
  "fst (webhook E self on_new_message request s) =
     (case request_json request of
        Inl e \<Rightarrow> Inl e
      | Inr postdata \<Rightarrow> Inr \<lparr>status = 200, body = ''success''\<rparr>)"
  by (simp add: webhook_def response_text_def split: sum.splits prod.splits)

section \<open>Credentials\<close>

text \<open>
  C10. \<^verbatim>\<open>from_credentials\<close> raises the missing-credentials exception exactly when the
  credentials are \<^verbatim>\<open>None\<close> or empty; a non-empty dictionary always gives an instance,
  whose \<^verbatim>\<open>app_id\<close> and \<^verbatim>\<open>app_password\<close> are the dictionary's entries, \<^verbatim>\<open>None\<close> standing
  in for a missing key.
\<close>

theorem from_credentials_raises_iff_falsy:
  "((\<exists>e. from_credentials c = Inl e) = (c = None \<or> c = Some [])) \<and>
   ((from_credentials c = Inl MissingCredentials) = (c = None \<or> c = Some [])) \<and>
   from_credentials (Some (kv # d)) =
     Inr \<lparr>input_app_id = (case map_of (kv # d) ''app_id'' of Some x \<Rightarrow> x | None \<Rightarrow> JNull),
          input_app_password =
            (case map_of (kv # d) ''app_password'' of Some x \<Rightarrow> x | None \<Rightarrow> JNull)\<rparr>"
  by (auto simp: from_credentials_def falsy_def raise_missing_credentials_exception_def
        BotFrameworkInput_def dict_get_def split: option.splits)

end
